theory Spec2Isabelle
  imports Main "HOL-Library.Word"
begin

unbundle bit_operations_syntax

section \<open>Data model\<close>

text \<open>
  The structs of the package. \<open>Code\<close> is a Go \<open>uint16\<close>, \<open>RepeatCount\<close> a Go
  \<open>uint\<close> (64 bits on the platforms the package is built for). Strings are byte
  sequences, as Go's are.
\<close>

record ButtonPress =
  Code :: "16 word"
  RepeatCount :: "64 word"
  ButtonName :: string
  RemoteControlName :: string

record CommandReply =
  Command :: string
  Success :: bool
  Data :: "string list"

text \<open>The zero value \<open>CommandReply{}\<close>.\<close>

definition zeroReply :: CommandReply where
  "zeroReply = \<lparr>Command = [], Success = False, Data = []\<rparr>"

text \<open>
  Error values: the package's sentinel, the correlation error of \<open>SendCommand\<close>, the
  two errors a context reports, an I/O error of the socket, and the two wrappers
  \<open>Start\<close> builds with \<open>fmt.Errorf\<close>.
\<close>

datatype error =
    ErrUnsuccessfulCommand
  | UnexpectedReplyCommand string
  | Canceled
  | DeadlineExceeded
  | IOError string
  | CannotDial error
  | ErrorClosing error

text \<open>
  What a call does besides computing a value: it returns, it panics (an unrecovered
  panic in a goroutine ends the process), or it never returns because it waits in a
  \<open>select\<close> none of whose cases ever becomes ready.
\<close>

datatype panic = IndexOutOfRange nat nat | MakesliceCapOutOfRange

datatype 'a outcome = Returns 'a | Panics panic | BlocksForever

text \<open>Sequencing: what follows a call runs only when the call returns.\<close>

fun andThen :: "'a outcome \<Rightarrow> ('a \<Rightarrow> 'b outcome) \<Rightarrow> 'b outcome" where
  "andThen (Returns x) f = f x"
| "andThen (Panics p) f = Panics p"
| "andThen BlocksForever f = BlocksForever"

section \<open>Library functions the reader calls\<close>

subsection \<open>strings.Split with a one-byte separator\<close>

fun Split :: "string \<Rightarrow> char \<Rightarrow> string list" where
  "Split [] sep = [[]]"
| "Split (c # cs) sep =
     (if c = sep then [] # Split cs sep
      else (case Split cs sep of
              [] \<Rightarrow> [[c]]
            | w # ws \<Rightarrow> (c # w) # ws))"

text \<open>Indexing a slice panics out of range.\<close>

definition index :: "'a list \<Rightarrow> nat \<Rightarrow> 'a outcome" where
  "index xs i = (if i < length xs then Returns (xs ! i) else Panics (IndexOutOfRange i (length xs)))"

subsection \<open>encoding/hex\<close>

datatype hexError = InvalidByteError char | ErrLength

definition fromHexChar :: "char \<Rightarrow> nat option" where
  "fromHexChar c =
     (let n = (of_char c :: nat) in
      if 48 \<le> n \<and> n \<le> 57 then Some (n - 48)
      else if 97 \<le> n \<and> n \<le> 102 then Some (n - 97 + 10)
      else if 65 \<le> n \<and> n \<le> 70 then Some (n - 65 + 10)
      else None)"

text \<open>
  \<open>hex.DecodeString\<close>: two digits make a byte, the first the high nibble; a bad
  digit is reported before an odd length.
\<close>

fun DecodeString :: "string \<Rightarrow> hexError + 8 word list" where
  "DecodeString [] = Inr []"
| "DecodeString [p] =
     (case fromHexChar p of None \<Rightarrow> Inl (InvalidByteError p) | Some a \<Rightarrow> Inl ErrLength)"
| "DecodeString (p # q # rest) =
     (case fromHexChar p of
        None \<Rightarrow> Inl (InvalidByteError p)
      | Some a \<Rightarrow>
          (case fromHexChar q of
             None \<Rightarrow> Inl (InvalidByteError q)
           | Some b \<Rightarrow>
               (case DecodeString rest of
                  Inl e \<Rightarrow> Inl e
                | Inr bs \<Rightarrow> Inr (of_nat (a * 16 + b) # bs))))"

subsection \<open>encoding/binary\<close>

text \<open>\<open>binary.LittleEndian.Uint16\<close>; it panics on fewer than two bytes.\<close>

fun Uint16 :: "8 word list \<Rightarrow> 16 word outcome" where
  "Uint16 (b0 # b1 # bs) = Returns (ucast b0 OR push_bit 8 (ucast b1))"
| "Uint16 bs = Panics (IndexOutOfRange 1 (length bs))"

subsection \<open>strconv\<close>

datatype numError = ErrSyntax | ErrRange

definition maxUint64 :: int where
  "maxUint64 = 2 ^ 64 - 1"

text \<open>
  The digit loop of \<open>strconv.ParseUint(s, 10, 0)\<close>, bit size 0 meaning the size of
  \<open>uint\<close>. The accumulator is a \<open>uint64\<close> in Go; here it is an integer that
  stays between 0 and \<open>maxUint64\<close>, and the two overflow tests of the loop are
  written on it.
\<close>

fun parseUintLoop :: "int \<Rightarrow> string \<Rightarrow> numError + int" where
  "parseUintLoop n [] = Inr n"
| "parseUintLoop n (c # cs) =
     (let d = (of_char c :: int) in
      if 48 \<le> d \<and> d \<le> 57 then
        (if maxUint64 div 10 + 1 \<le> n then Inl ErrRange
         else if maxUint64 < n * 10 + (d - 48) then Inl ErrRange
         else parseUintLoop (n * 10 + (d - 48)) cs)
      else Inl ErrSyntax)"

definition ParseUint :: "string \<Rightarrow> numError + int" where
  "ParseUint s = (if s = [] then Inl ErrSyntax else parseUintLoop 0 s)"

text \<open>
  \<open>strconv.Atoi\<close>: an optional sign, then the digits; the value has to fit a
  64-bit \<open>int\<close>. As in Go the result is a value and an error: the value is 0 with
  a syntax error and the nearest bound with a range error.
\<close>

definition Atoi :: "string \<Rightarrow> int \<times> numError option" where
  "Atoi s =
     (case s of
        [] \<Rightarrow> (0, Some ErrSyntax)
      | c # cs \<Rightarrow>
          (let neg = (c = CHR ''-'');
               digits = (if c = CHR ''+'' \<or> c = CHR ''-'' then cs else s)
           in case ParseUint digits of
                Inl ErrSyntax \<Rightarrow> (0, Some ErrSyntax)
              | Inl ErrRange \<Rightarrow> (if neg then - (2 ^ 63) else 2 ^ 63 - 1, Some ErrRange)
              | Inr un \<Rightarrow>
                  if \<not> neg \<and> 2 ^ 63 \<le> un then (2 ^ 63 - 1, Some ErrRange)
                  else if neg \<and> 2 ^ 63 < un then (- (2 ^ 63), Some ErrRange)
                  else (if neg then - un else un, None)))"

subsection \<open>make\<close>

text \<open>
  \<open>make([]string, 0, n)\<close> panics when the capacity is negative. The new slice is
  empty; its capacity is not part of what a reply shows, so a slice is the list of its
  elements. (How large a capacity the allocator grants is not modelled.)
\<close>

definition makeStrings :: "int \<Rightarrow> string list outcome" where
  "makeStrings n = (if n < 0 then Panics MakesliceCapOutOfRange else Returns [])"

section \<open>Contexts and select\<close>

text \<open>
  A cancellable context: \<open>err\<close> is what \<open>ctx.Err()\<close> returns (\<open>None\<close> until the
  context is done), \<open>cause\<close> what \<open>context.Cause(ctx)\<close> returns.
\<close>

record Context =
  err :: "error option"
  cause :: "error option"

definition background :: Context where
  "background = \<lparr>err = None, cause = None\<rparr>"

definition Done :: "Context \<Rightarrow> bool" where
  "Done ctx = (err ctx \<noteq> None)"

definition Cause :: "Context \<Rightarrow> error option" where
  "Cause ctx = cause ctx"

text \<open>
  The \<open>cancel\<close> function of \<open>context.WithCancelCause\<close>: the first cancellation
  wins; \<open>cancel(nil)\<close> records \<open>Canceled\<close> as the cause.
\<close>

definition cancel :: "error option \<Rightarrow> Context \<Rightarrow> Context" where
  "cancel e ctx =
     (if err ctx \<noteq> None then ctx
      else \<lparr>err = Some Canceled, cause = Some (case e of None \<Rightarrow> Canceled | Some x \<Rightarrow> x)\<rparr>)"

text \<open>
  Cancellation of the parent reaches the child with the parent's error and the
  parent's cause.
\<close>

definition parentDone :: "error \<Rightarrow> error \<Rightarrow> Context \<Rightarrow> Context" where
  "parentDone perr pcause ctx =
     (if err ctx \<noteq> None then ctx else \<lparr>err = Some perr, cause = Some pcause\<rparr>)"

text \<open>
  A \<open>select\<close> between \<open>ctx.Done()\<close> and a send on an unbuffered channel. The
  runtime decides it from what it finds: \<open>parked\<close> says a receiver is already
  waiting on the channel, \<open>pick\<close> is the pseudo-random choice when both cases can
  proceed, \<open>later\<close> is what happens first while the select waits (\<open>None\<close>:
  nothing ever does).
\<close>

datatype selected = CtxDone | Sent

record runtime =
  parked :: bool
  pick :: selected
  later :: "selected option"

definition selectSend :: "Context \<Rightarrow> runtime \<Rightarrow> selected option" where
  "selectSend ctx rt =
     (if Done ctx \<and> parked rt then Some (pick rt)
      else if Done ctx then Some CtxDone
      else if parked rt then Some Sent
      else later rt)"

section \<open>The protocol reader\<close>

datatype connectionState =
    stateReceive
  | stateReply
  | stateMessage
  | stateStatus
  | stateDataStart
  | stateDataLength
  | stateData
  | stateDataEnd

text \<open>
  The reader's fields that hold data. \<open>dataCount\<close> and \<open>dataLength\<close> are Go
  \<open>int\<close>s; the count grows by one per line and stays far from the end of the range.
  The logger and the two channels are what the reader acts on: each call returns the
  effects it had on them, in order.
\<close>

record lircReader =
  state :: connectionState
  reply :: CommandReply
  dataCount :: int
  dataLength :: int

datatype attr = IntAttr string int | StrAttr string string

datatype effect =
    LogError string "attr list"
  | SendEvent ButtonPress
  | SendReply CommandReply

definition newLircReader :: lircReader where
  "newLircReader = \<lparr>state = stateReceive, reply = zeroReply, dataCount = 0, dataLength = 0\<rparr>"

definition stateError :: "string \<Rightarrow> attr list \<Rightarrow> lircReader \<Rightarrow> lircReader \<times> effect list" where
  "stateError msg attrs r = (r\<lparr>state := stateReceive\<rparr>, [LogError msg attrs])"

text \<open>
  \<open>flushReply\<close> sends on \<open>replies\<close>. The only receiver of that channel is the
  select of the dispatch loop in \<open>Start\<close>, which has \<open>ctx.Done()\<close> among its cases
  and returns on it: once the context is done, that select has fired and no receiver
  is parked on \<open>replies\<close>.
\<close>

definition selectReplies :: "Context \<Rightarrow> runtime \<Rightarrow> selected option" where
  "selectReplies ctx rt = selectSend ctx (rt\<lparr>parked := parked rt \<and> \<not> Done ctx\<rparr>)"

definition flushReply :: "Context \<Rightarrow> runtime \<Rightarrow> lircReader \<Rightarrow> effect list outcome" where
  "flushReply ctx rt r =
     (case selectReplies ctx rt of
        None \<Rightarrow> BlocksForever
      | Some CtxDone \<Rightarrow> Returns []
      | Some Sent \<Rightarrow> Returns [SendReply (reply r)])"

text \<open>The arm of \<open>read\<close> for \<open>stateReceive\<close> once the line is not \<open>BEGIN\<close>.\<close>

definition readEvent :: "Context \<Rightarrow> runtime \<Rightarrow> string \<Rightarrow> lircReader \<Rightarrow> (lircReader \<times> effect list) outcome" where
  "readEvent ctx rt line r =
     (let w = Split line CHR '' '' in
      andThen (index w 0) (\<lambda>h0.
      let h = (if length h0 < 16 then replicate (16 - length h0) CHR ''0'' @ h0 else h0) in
      case DecodeString h of
        Inl e \<Rightarrow>
          Returns (stateError ''lirc code not parseable as hex''
                     [IntAttr ''len'' (int (length h))] r)
      | Inr c \<Rightarrow>
          if length c \<noteq> 8 then
            Returns (stateError ''lirc code has wrong length for 16-bit integer''
                       [IntAttr ''len'' (int (length c))] r)
          else
            andThen (index w 1) (\<lambda>w1.
            case ParseUint w1 of
              Inl e \<Rightarrow>
                Returns (stateError
                  ''lirc repeat count not parseable as decimal (invalid repeat count)''
                  [StrAttr ''repeat'' w1] r)
            | Inr repeats \<Rightarrow>
                andThen (Uint16 c) (\<lambda>code.
                andThen (index w 2) (\<lambda>w2.
                andThen (index w 3) (\<lambda>w3.
                let event = \<lparr>Code = code, RepeatCount = word_of_int repeats,
                               ButtonName = w2, RemoteControlName = w3\<rparr>
                in case selectSend ctx rt of
                     None \<Rightarrow> BlocksForever
                   | Some CtxDone \<Rightarrow> Returns (r, [])
                   | Some Sent \<Rightarrow> Returns (r, [SendEvent event])))))))"

text \<open>
  \<open>read\<close>, one arm per state as in the source's switch. \<open>stateMessage\<close> is declared
  but has no arm: a line read in it changes nothing.
\<close>

definition read :: "Context \<Rightarrow> runtime \<Rightarrow> string \<Rightarrow> lircReader \<Rightarrow> (lircReader \<times> effect list) outcome" where
  "read ctx rt line r =
     (case state r of
        stateReceive \<Rightarrow>
          if line = ''BEGIN'' then
            Returns (r\<lparr>state := stateReply, reply := zeroReply, dataCount := 0, dataLength := 0\<rparr>, [])
          else readEvent ctx rt line r
      | stateReply \<Rightarrow>
          Returns (r\<lparr>reply := \<lparr>Command = line, Success = True, Data = []\<rparr>,
                      state := stateStatus\<rparr>, [])
      | stateMessage \<Rightarrow> Returns (r, [])
      | stateStatus \<Rightarrow>
          if line = ''SUCCESS'' then Returns (r\<lparr>state := stateDataStart\<rparr>, [])
          else if line = ''ERROR'' then
            Returns (r\<lparr>reply := (reply r)\<lparr>Success := False\<rparr>, state := stateDataStart\<rparr>, [])
          else if line = ''END'' then
            andThen (flushReply ctx rt (r\<lparr>state := stateReceive\<rparr>)) (\<lambda>es.
            Returns (r\<lparr>state := stateReceive\<rparr>, es))
          else
            Returns (stateError ''lirc reply message received has invalid status''
                       [StrAttr ''line'' line] r)
      | stateDataStart \<Rightarrow>
          if line = ''DATA'' then Returns (r\<lparr>state := stateDataLength\<rparr>, [])
          else if line = ''END'' then
            andThen (flushReply ctx rt (r\<lparr>state := stateReceive\<rparr>)) (\<lambda>es.
            Returns (r\<lparr>state := stateReceive\<rparr>, es))
          else
            Returns (stateError ''lirc reply message received has invalid data start''
                       [StrAttr ''line'' line] r)
      | stateDataLength \<Rightarrow>
          (case Atoi line of
             (n, Some e) \<Rightarrow>
               Returns (stateError ''lirc reply message received has invalid data length''
                          [StrAttr ''line'' line] (r\<lparr>dataLength := n\<rparr>))
           | (n, None) \<Rightarrow>
               andThen (makeStrings n) (\<lambda>d.
               Returns (r\<lparr>dataLength := n, state := stateData, dataCount := 0,
                           reply := (reply r)\<lparr>Data := d\<rparr>\<rparr>, [])))
      | stateData \<Rightarrow>
          (let r1 = r\<lparr>reply := (reply r)\<lparr>Data := Data (reply r) @ [line]\<rparr>,
                       dataCount := dataCount r + 1\<rparr>
           in if dataLength r1 < dataCount r1 then Returns (r1\<lparr>state := stateDataEnd\<rparr>, [])
              else Returns (r1, []))
      | stateDataEnd \<Rightarrow>
          if line \<noteq> ''END'' then
            Returns (stateError
                       ''lirc reply message received has invalid data end, discarding reply''
                       [StrAttr ''line'' line] r)
          else
            andThen (flushReply ctx rt r) (\<lambda>es.
            Returns (r\<lparr>state := stateReceive\<rparr>, es)))"

text \<open>
  The scanner loop of \<open>Start\<close>: every line goes to \<open>read\<close>, in order. The run stops
  where a call panics or never returns.
\<close>

fun feed :: "Context \<Rightarrow> runtime \<Rightarrow> string list \<Rightarrow> lircReader \<Rightarrow> (lircReader \<times> effect list) outcome" where
  "feed ctx rt [] r = Returns (r, [])"
| "feed ctx rt (line # rest) r =
     andThen (read ctx rt line r) (\<lambda>(r1, es1).
     andThen (feed ctx rt rest r1) (\<lambda>(r2, es2).
     Returns (r2, es1 @ es2)))"

section \<open>Commands\<close>

text \<open>\<open>strconv.Itoa\<close>, for the repeat count of \<open>SendOnce\<close>.\<close>

function formatNat :: "nat \<Rightarrow> string" where
  "formatNat n =
     (if n < 10 then [char_of (48 + n)]
      else formatNat (n div 10) @ [char_of (48 + n mod 10)])"
  by pat_completeness auto
termination
  by (relation "measure id") auto

definition Itoa :: "int \<Rightarrow> string" where
  "Itoa i = (if i < 0 then CHR ''-'' # formatNat (nat (- i)) else formatNat (nat i))"

text \<open>
  The implementations of the \<open>Command\<close> interface in commands.go. \<open>Repeats\<close> is
  a \<open>uint\<close>; \<open>int(s.Repeats)\<close> reads it as a signed value.
\<close>

datatype Command =
    SendOnce string string "64 word"
  | SendStart string string
  | SendStop string string
  | List string
  | SetInputLog string
  | DrvOption string string
  | Simulate string string
  | SetTransmitters string
  | Version

fun EncodeCommand :: "Command \<Rightarrow> string list" where
  "EncodeCommand (SendOnce remoteControl buttonName repeats) =
     (if repeats = 0 then [''SEND_ONCE'', remoteControl, buttonName]
      else [''SEND_ONCE'', remoteControl, buttonName, Itoa (sint repeats)])"
| "EncodeCommand (SendStart remoteControl buttonName) = [''SEND_START'', remoteControl, buttonName]"
| "EncodeCommand (SendStop remoteControl buttonName) = [''SEND_STOP'', remoteControl, buttonName]"
| "EncodeCommand (List remoteControl) =
     (if remoteControl = [] then [''LIST''] else [''LIST'', remoteControl])"
| "EncodeCommand (SetInputLog path) =
     (if path = [] then [''SET_INPUTLOG''] else [''SET_INPUTLOG'', path])"
| "EncodeCommand (DrvOption k v) = [''DRV_OPTION'', k, v]"
| "EncodeCommand (Simulate k d) = [''SIMULATE'', k, d]"
| "EncodeCommand (SetTransmitters transmitterMask) = [''SET_TRANSMITTERS'', transmitterMask]"
| "EncodeCommand Version = [''VERSION'']"

section \<open>SendCommand\<close>

text \<open>
  \<open>SendCommand\<close> waits in two selects. What the first one does is \<open>submitted\<close>:
  the command went into \<open>l.send\<close>, or the caller's context was done first (with
  its \<open>ctx.Err()\<close>), or neither ever happens. The second select cannot wait for ever,
  its context ends after ten seconds: either a reply arrives on \<open>l.reply\<close> or the
  context is done.
\<close>

datatype submitted = Submitted | SubmitCtxDone error | SubmitNever

datatype awaited = Received CommandReply | WaitCtxDone error

definition SendCommand :: "Command \<Rightarrow> submitted \<Rightarrow> awaited \<Rightarrow> (CommandReply \<times> error option) outcome" where
  "SendCommand command sub aw =
     (case sub of
        SubmitNever \<Rightarrow> BlocksForever
      | SubmitCtxDone e \<Rightarrow> Returns (zeroReply, Some e)
      | Submitted \<Rightarrow>
          (case aw of
             WaitCtxDone e \<Rightarrow> Returns (zeroReply, Some e)
           | Received rep \<Rightarrow>
               andThen (index (EncodeCommand command) 0) (\<lambda>name.
               if Command rep \<noteq> name then
                 Returns (rep, Some (UnexpectedReplyCommand (Command rep)))
               else if \<not> Success rep then Returns (rep, Some ErrUnsuccessfulCommand)
               else Returns (rep, None))))"

section \<open>The write and dispatch loop of Start\<close>

fun Join :: "string list \<Rightarrow> string \<Rightarrow> string" where
  "Join [] sep = []"
| "Join [x] sep = x"
| "Join (x # y # ys) sep = x @ sep @ Join (y # ys) sep"

text \<open>
  The loop's variable \<open>sendingCh\<close> is either \<open>r.send\<close> or \<open>nil\<close>; a receive from
  a nil channel is never ready, so the select cannot take that case. The rest of the
  record is what the loop has done so far: the lines written to the socket, the
  replies handed to \<open>r.reply\<close>, the arguments of its calls of \<open>cancel\<close> (the deferred
  \<open>cancel(nil)\<close> included), its log messages, and whether it still loops, has
  returned, or waits for ever in the inner select.
\<close>

datatype chanRef = chanNil | chanSend

datatype phase = Looping | Returned | Stuck

record dispatcher =
  sendingCh :: chanRef
  written :: "string list"
  handed :: "CommandReply list"
  cancels :: "error option list"
  logs :: "string list"
  phase :: phase

definition newDispatcher :: dispatcher where
  "newDispatcher = \<lparr>sendingCh = chanSend, written = [], handed = [], cancels = [],
                     logs = [], phase = Looping\<rparr>"

text \<open>
  One turn of the loop is the case its select takes: \<open>ctx.Done()\<close>; a command from
  \<open>sendingCh\<close>, with the result of \<open>io.WriteString\<close>; or a reply from
  \<open>repliesCh\<close>, with what the inner select does when it is reached.
\<close>

datatype selectCase =
    CaseDone
  | CaseSend Command "error option"
  | CaseReply CommandReply "selected option"

text \<open>
  \<open>step\<close> is \<open>None\<close> where the select cannot take the case: the loop is over, or
  the case is a receive from the nil \<open>sendingCh\<close>.
\<close>

definition step :: "selectCase \<Rightarrow> dispatcher \<Rightarrow> dispatcher option" where
  "step c d =
     (if phase d \<noteq> Looping then None
      else case c of
        CaseDone \<Rightarrow> Some (d\<lparr>cancels := cancels d @ [None], phase := Returned\<rparr>)
      | CaseSend cmd w \<Rightarrow>
          if sendingCh d = chanNil then None
          else
            (let raw = Join (EncodeCommand cmd) '' '' @ [CHR 0x0A] in
             case w of
               Some e \<Rightarrow>
                 Some (d\<lparr>logs := logs d @ [''error writing to lircd socket''],
                          cancels := cancels d @ [Some e, None],
                          phase := Returned\<rparr>)
             | None \<Rightarrow> Some (d\<lparr>written := written d @ [raw], sendingCh := chanNil\<rparr>))
      | CaseReply rep inner \<Rightarrow>
          if Command rep = ''SIGHUP'' then
            Some (d\<lparr>logs := logs d @ [''lircd has been reloaded'']\<rparr>)
          else
            (case inner of
               None \<Rightarrow> Some (d\<lparr>phase := Stuck\<rparr>)
             | Some CtxDone \<Rightarrow> Some (d\<lparr>cancels := cancels d @ [None], phase := Returned\<rparr>)
             | Some Sent \<Rightarrow> Some (d\<lparr>handed := handed d @ [rep], sendingCh := chanSend\<rparr>)))"

fun run :: "selectCase list \<Rightarrow> dispatcher \<Rightarrow> dispatcher option" where
  "run [] d = Some d"
| "run (c # cs) d = (case step c d of None \<Rightarrow> None | Some d1 \<Rightarrow> run cs d1)"

text \<open>
  A turn that routes a reply to the caller waiting in \<open>SendCommand\<close>: a reply other
  than the reload notice whose send on \<open>r.reply\<close> went through.
\<close>

fun routes :: "selectCase \<Rightarrow> bool" where
  "routes (CaseReply rep (Some Sent)) = (Command rep \<noteq> ''SIGHUP'')"
| "routes c = False"

fun accepts :: "selectCase \<Rightarrow> bool" where
  "accepts (CaseSend cmd w) = True"
| "accepts c = False"

section \<open>The end of Start\<close>

text \<open>
  What cancels the context \<open>Start\<close> derives with \<open>context.WithCancelCause\<close>: the
  parent is done (with its error and its cause), or one of the loops calls
  \<open>cancel\<close>. The first cancellation is the one that stays.
\<close>

datatype cancellation = ParentDone error error | CancelCall "error option"

fun applyCancel :: "cancellation \<Rightarrow> Context \<Rightarrow> Context" where
  "applyCancel (ParentDone perr pcause) ctx = parentDone perr pcause ctx"
| "applyCancel (CancelCall e) ctx = cancel e ctx"

definition applyCancels :: "cancellation list \<Rightarrow> Context \<Rightarrow> Context" where
  "applyCancels cs ctx = foldl (\<lambda>c x. applyCancel x c) ctx cs"

fun causeOf :: "cancellation \<Rightarrow> error" where
  "causeOf (ParentDone perr pcause) = pcause"
| "causeOf (CancelCall None) = Canceled"
| "causeOf (CancelCall (Some e)) = e"

text \<open>
  The body of \<open>Start\<close> on its own goroutine, as the list of what it does and how it
  ends. \<open>dial\<close> is the error of the dialer, \<open>ctx\<close> the derived context as
  \<open>Start\<close> finds it, \<open>closeErr\<close> the error of \<open>conn.Close()\<close>, \<open>exited\<close> whether
  both loops come to their end so that \<open>wg.Wait()\<close> returns. The deferred
  \<open>wg.Wait()\<close> runs on the return with the close error as well.
\<close>

datatype action = Dial | LaunchLoops | AwaitDone | CloseConn | WaitLoops

definition Start :: "error option \<Rightarrow> Context \<Rightarrow> error option \<Rightarrow> bool \<Rightarrow> action list \<times> error option outcome" where
  "Start dial ctx closeErr exited =
     (case dial of
        Some e \<Rightarrow> ([Dial], Returns (Some (CannotDial e)))
      | None \<Rightarrow>
          if \<not> Done ctx then ([Dial, LaunchLoops, AwaitDone], BlocksForever)
          else if \<not> exited then
            ([Dial, LaunchLoops, AwaitDone, CloseConn, WaitLoops], BlocksForever)
          else
            (case closeErr of
               Some e \<Rightarrow>
                 ([Dial, LaunchLoops, AwaitDone, CloseConn, WaitLoops],
                  Returns (Some (ErrorClosing e)))
             | None \<Rightarrow>
                 ([Dial, LaunchLoops, AwaitDone, CloseConn, WaitLoops],
                  Returns (Cause ctx))))"

section \<open>The spec's words for an event line\<close>

text \<open>
  A decimal digit and the value of a string of digits, written from the positional
  rule and not from the parsing loop.
\<close>

definition isDigit :: "char \<Rightarrow> bool" where
  "isDigit c = (c \<in> set ''0123456789'')"

definition digitValue :: "char \<Rightarrow> nat" where
  "digitValue c = of_char c - 48"

definition decimalValue :: "string \<Rightarrow> nat" where
  "decimalValue s = (\<Sum>i<length s. digitValue (s ! i) * 10 ^ (length s - 1 - i))"

section \<open>Facts about the library functions\<close>

lemma replicate_numeral_Cons: "replicate (numeral k) x = x # replicate (pred_numeral k) x"
  by (simp add: numeral_eq_Suc)

lemma Split_no_sep: "sep \<notin> set a \<Longrightarrow> Split a sep = [a]"
  by (induction a) auto

lemma Split_append_sep: "sep \<notin> set a \<Longrightarrow> Split (a @ sep # rest) sep = a # Split rest sep"
  by (induction a) (auto split: list.splits)

lemma fromHexChar_space: "fromHexChar CHR '' '' = None"
  by (simp add: fromHexChar_def)

lemma DecodeString_chars: "DecodeString s = Inr bs \<Longrightarrow> \<forall>ch\<in>set s. fromHexChar ch \<noteq> None"
  by (induction s arbitrary: bs rule: DecodeString.induct) (auto split: option.splits sum.splits)

lemma isDigit_range:
  "isDigit ch \<Longrightarrow> 48 \<le> (of_char ch :: int) \<and> (of_char ch :: int) \<le> 57 \<and> ch \<noteq> CHR '' ''
     \<and> (of_char ch :: int) - 48 = int (digitValue ch)"
  by (auto simp: isDigit_def digitValue_def)

lemma decimalValue_Cons: "decimalValue (ch # s) = digitValue ch * 10 ^ length s + decimalValue s"
  by (simp add: decimalValue_def sum.lessThan_Suc_shift del: sum.lessThan_Suc)

text \<open>On a string of digits whose value fits, the loop computes the positional value.\<close>

lemma parseUintLoop_digits:
  "\<forall>ch\<in>set s. isDigit ch \<Longrightarrow> 0 \<le> n \<Longrightarrow> n * 10 ^ length s + int (decimalValue s) \<le> maxUint64
   \<Longrightarrow> parseUintLoop n s = Inr (n * 10 ^ length s + int (decimalValue s))"
proof (induction s arbitrary: n)
  case Nil
  then show ?case by (simp add: decimalValue_def)
next
  case (Cons ch s)
  let ?d = "int (digitValue ch)"
  from Cons.prems(1) have dg: "48 \<le> (of_char ch :: int)" "(of_char ch :: int) \<le> 57"
      "(of_char ch :: int) - 48 = ?d"
    using isDigit_range[of ch] by simp_all
  have total: "n * 10 ^ length (ch # s) + int (decimalValue (ch # s))
        = (n * 10 + ?d) * 10 ^ length s + int (decimalValue s)"
    by (simp add: decimalValue_Cons algebra_simps)
  have p: "(1::int) \<le> 10 ^ length s" by simp
  have nn: "0 \<le> n * 10 + ?d" using Cons.prems(2) by simp
  have "(n * 10 + ?d) * 1 \<le> (n * 10 + ?d) * 10 ^ length s"
    by (rule mult_left_mono) (use nn p in simp_all)
  then have le: "n * 10 + ?d \<le> maxUint64" using Cons.prems(3) total by simp
  then have c1: "\<not> maxUint64 div 10 + 1 \<le> n" by linarith
  have IH: "parseUintLoop (n * 10 + ?d) s = Inr ((n * 10 + ?d) * 10 ^ length s + int (decimalValue s))"
    using Cons.IH[of "n * 10 + ?d"] Cons.prems nn total by simp
  show ?case using dg c1 le IH total by (simp add: Let_def)
qed

lemma ParseUint_digits:
  assumes "s \<noteq> []" "\<forall>ch\<in>set s. isDigit ch" "decimalValue s < 2 ^ 64"
  shows "ParseUint s = Inr (int (decimalValue s))"
proof -
  have "int (decimalValue s) \<le> maxUint64" using assms(3) by (simp add: maxUint64_def)
  then show ?thesis
    using parseUintLoop_digits[OF assms(2), of 0] assms(1) by (simp add: ParseUint_def)
qed

text \<open>The two bytes do not overlap in the 16-bit value, so the OR is a sum.\<close>

lemma unat_little_endian:
  "unat (ucast (b0::8 word) OR push_bit 8 (ucast (b1::8 word)) :: 16 word) = unat b0 + 256 * unat b1"
proof -
  let ?A = "ucast b0 :: 16 word" and ?B = "push_bit 8 (ucast b1) :: 16 word"
  have b0: "unat b0 < 256" and b1: "unat b1 < 256"
    using unsigned_less[of b0, where ?'a = nat] unsigned_less[of b1, where ?'a = nat] by simp_all
  have disj: "?A AND ?B = 0"
    by (auto simp: bit_eq_iff bit_simps dest: bit_imp_le_length)
  have A: "unat ?A = unat b0" using b0 by (simp add: unsigned_ucast_eq take_bit_nat_eq_self)
  have C: "unat (ucast b1 :: 16 word) = unat b1"
    using b1 by (simp add: unsigned_ucast_eq take_bit_nat_eq_self)
  have "?B = ucast b1 * 256" by (simp add: push_bit_eq_mult)
  moreover have "unat (ucast b1 * 256 :: 16 word) = unat (ucast b1 :: 16 word) * unat (256 :: 16 word)"
    using C b1 by (subst unat_mult_lem[symmetric]) simp
  ultimately have B: "unat ?B = 256 * unat b1" using C by simp
  have "?A OR ?B = ?A + ?B" using disjunctive_add_eq_or[OF disj] by simp
  moreover have "unat (?A + ?B) = unat ?A + unat ?B"
    using A B b0 b1 by (subst unat_add_lem[symmetric]) simp
  ultimately show ?thesis using A B by simp
qed

lemma Uint16_of_8:
  "length c = 8 \<Longrightarrow> \<exists>code. Uint16 c = Returns code \<and> unat code = unat (c ! 0) + 256 * unat (c ! 1)"
proof -
  assume "length c = 8"
  then obtain b0 b1 bs where c: "c = b0 # b1 # bs"
    by (cases c; cases "tl c") auto
  then show ?thesis by (simp add: unat_little_endian)
qed

lemma line_not_BEGIN: "hex @ '' '' @ rest \<noteq> ''BEGIN''"
proof
  assume eq: "hex @ '' '' @ rest = ''BEGIN''"
  have "CHR '' '' \<in> set (hex @ '' '' @ rest)" by simp
  then have "CHR '' '' \<in> set ''BEGIN''" unfolding eq .
  then show False by simp
qed

lemma Split_event_line:
  assumes "DecodeString (replicate (16 - length hex) CHR ''0'' @ hex) = Inr c"
    and "\<forall>ch\<in>set repeat. isDigit ch"
    and "CHR '' '' \<notin> set button" and "CHR '' '' \<notin> set remote"
  shows "Split (hex @ '' '' @ repeat @ '' '' @ button @ '' '' @ remote) CHR '' ''
           = [hex, repeat, button, remote]"
proof -
  let ?h = "replicate (16 - length hex) CHR ''0'' @ hex"
  have hexsp: "CHR '' '' \<notin> set hex"
  proof
    assume "CHR '' '' \<in> set hex"
    then have "CHR '' '' \<in> set ?h" by simp
    with DecodeString_chars[OF assms(1)] have "fromHexChar CHR '' '' \<noteq> None" by blast
    then show False by (simp add: fromHexChar_space)
  qed
  have repsp: "CHR '' '' \<notin> set repeat"
    using assms(2) isDigit_range by blast
  show ?thesis
    using hexsp repsp assms(3,4)
    by (simp add: Split_append_sep Split_no_sep)
qed

section \<open>Facts about the dispatch loop and the context\<close>

lemma run_without_routing:
  "run cs d = Some d2 \<Longrightarrow> sendingCh d = chanNil \<Longrightarrow> \<forall>c\<in>set cs. \<not> routes c
   \<Longrightarrow> sendingCh d2 = chanNil \<and> (\<forall>c\<in>set cs. \<not> accepts c)"
proof (induction cs arbitrary: d)
  case Nil
  then show ?case by simp
next
  case (Cons c cs)
  from Cons.prems obtain d1 where s: "step c d = Some d1" and r: "run cs d1 = Some d2"
    by (auto split: option.splits)
  from s Cons.prems(2,3) have "sendingCh d1 = chanNil \<and> \<not> accepts c"
    by (cases c) (auto simp: step_def split: if_splits option.splits selected.splits)
  with Cons.IH[OF r] Cons.prems(3) show ?case by auto
qed

lemma step_enables_only_by_routing:
  "step c d = Some d3 \<Longrightarrow> sendingCh d = chanNil \<Longrightarrow> sendingCh d3 = chanSend
   \<Longrightarrow> \<exists>rep. c = CaseReply rep (Some Sent) \<and> Command rep \<noteq> ''SIGHUP''
          \<and> handed d3 = handed d @ [rep]"
  by (cases c) (auto simp: step_def split: if_splits option.splits selected.splits)

lemma applyCancels_done: "Done ctx \<Longrightarrow> applyCancels cs ctx = ctx"
  unfolding applyCancels_def
proof (induction cs arbitrary: ctx)
  case Nil
  then show ?case by simp
next
  case (Cons c cs)
  have "applyCancel c ctx = ctx"
    using Cons.prems by (cases c) (simp_all add: Done_def cancel_def parentDone_def)
  with Cons show ?case by simp
qed

lemma applyCancel_background:
  "Done (applyCancel c background) \<and> Cause (applyCancel c background) = Some (causeOf c)"
  by (cases c rule: causeOf.cases)
     (simp_all add: Done_def Cause_def cancel_def parentDone_def background_def)

lemma applyCancels_first: "applyCancels (c # cs) background = applyCancel c background"
  using applyCancels_done[of "applyCancel c background" cs] applyCancel_background[of c]
  by (simp add: applyCancels_def)

section \<open>The claims\<close>

text \<open>
  C1. The reader is to store exactly the declared number of payload lines, and the
  lines BEGIN, VERSION, SUCCESS, DATA, 1, 0.10.2, END are to deliver the reply with
  data [0.10.2]. The code does not: \<open>stateData\<close> leaves for \<open>stateDataEnd\<close> only
  when the count exceeds the declared length, so the line after the payload is
  appended to the data as well. After the seven lines nothing has been delivered and
  the reader waits in \<open>stateDataEnd\<close> with the data [0.10.2, END]; a second END
  delivers that reply.
\<close>

theorem version_reply_keeps_end_line:
  "feed ctx rt [''BEGIN'', ''VERSION'', ''SUCCESS'', ''DATA'', ''1'', ''0.10.2'', ''END''] newLircReader
     = Returns (\<lparr>state = stateDataEnd,
                  reply = \<lparr>Command = ''VERSION'', Success = True, Data = [''0.10.2'', ''END'']\<rparr>,
                  dataCount = 2, dataLength = 1\<rparr>, [])
   \<and> feed background \<lparr>parked = True, pick = Sent, later = None\<rparr>
        [''BEGIN'', ''VERSION'', ''SUCCESS'', ''DATA'', ''1'', ''0.10.2'', ''END'', ''END''] newLircReader
     = Returns (\<lparr>state = stateReceive,
                  reply = \<lparr>Command = ''VERSION'', Success = True, Data = [''0.10.2'', ''END'']\<rparr>,
                  dataCount = 2, dataLength = 1\<rparr>,
                [SendReply \<lparr>Command = ''VERSION'', Success = True, Data = [''0.10.2'', ''END'']\<rparr>])"
  by (simp add: read_def newLircReader_def zeroReply_def Atoi_def ParseUint_def maxUint64_def
        makeStrings_def flushReply_def selectReplies_def selectSend_def Done_def background_def)

text \<open>
  C2. For the command \<open>List ''DenonTuner''\<close>, whose tokens are LIST and DenonTuner,
  the reply lines BEGIN, LIST DenonTuner, ERROR, END are to give a reply with
  success false and the error of an unsuccessful command. The reader delivers that
  reply, but \<open>SendCommand\<close> compares its command line with the first token only and
  returns the correlation error.
\<close>

theorem list_reply_correlation_error:
  "feed background \<lparr>parked = True, pick = Sent, later = None\<rparr>
       [''BEGIN'', ''LIST DenonTuner'', ''ERROR'', ''END''] newLircReader
     = Returns (newLircReader\<lparr>reply := \<lparr>Command = ''LIST DenonTuner'', Success = False, Data = []\<rparr>\<rparr>,
                [SendReply \<lparr>Command = ''LIST DenonTuner'', Success = False, Data = []\<rparr>])
   \<and> EncodeCommand (List ''DenonTuner'') = [''LIST'', ''DenonTuner'']
   \<and> SendCommand (List ''DenonTuner'') Submitted
         (Received \<lparr>Command = ''LIST DenonTuner'', Success = False, Data = []\<rparr>)
     = Returns (\<lparr>Command = ''LIST DenonTuner'', Success = False, Data = []\<rparr>,
                Some (UnexpectedReplyCommand ''LIST DenonTuner''))"
  by (simp add: read_def newLircReader_def zeroReply_def flushReply_def selectReplies_def
        selectSend_def Done_def background_def SendCommand_def index_def)

text \<open>
  C3. Every line in every state is to be handled without a crash, a malformed one by
  a logged error and a return to \<open>stateReceive\<close>; so too a line in \<open>stateReceive\<close>
  with fewer than four fields. The code indexes the fields without looking at their
  number: the empty line and the line \<open>2a 0 KEY\<close> make \<open>read\<close> panic.
\<close>

theorem short_event_line_panics:
  "read ctx rt [] (r\<lparr>state := stateReceive\<rparr>) = Panics (IndexOutOfRange 1 1)
   \<and> read ctx rt ''2a 0 KEY'' (r\<lparr>state := stateReceive\<rparr>) = Panics (IndexOutOfRange 3 3)"
  by (simp add: read_def readEvent_def index_def fromHexChar_def ParseUint_def maxUint64_def
        Let_def replicate_numeral_Cons)

text \<open>
  C4. In \<open>stateDataLength\<close> a line that is not a non-negative integer, a negative
  one included, is to be a logged protocol error. \<open>Atoi\<close> accepts \<open>-1\<close>, and
  \<open>make\<close> panics on the negative capacity.
\<close>

theorem negative_data_length_panics:
  "read ctx rt ''-1'' (r\<lparr>state := stateDataLength\<rparr>) = Panics MakesliceCapOutOfRange"
  by (simp add: read_def Atoi_def ParseUint_def maxUint64_def makeStrings_def)

text \<open>
  C5. One command in flight. From a turn of the loop that wrote a command line, and
  for as long as no turn routes a reply to the caller: the loop has taken no further
  command, \<open>sendingCh\<close> is nil, the select cannot take a command, and the only turn
  that sets \<open>sendingCh\<close> again is one that hands a reply other than the reload
  notice to \<open>r.reply\<close>.
\<close>

theorem one_in_flight:
  assumes "step (CaseSend cmd None) d = Some d1"
    and "run cs d1 = Some d2"
    and "\<forall>c\<in>set cs. \<not> routes c"
  shows "sendingCh d2 = chanNil \<and> (\<forall>c\<in>set cs. \<not> accepts c)
     \<and> step (CaseSend cmd' w) d2 = None
     \<and> (\<forall>c d3. step c d2 = Some d3 \<and> sendingCh d3 = chanSend \<longrightarrow>
           routes c \<and> (\<exists>rep. c = CaseReply rep (Some Sent) \<and> handed d3 = handed d2 @ [rep]))"
proof -
  from assms(1) have nil1: "sendingCh d1 = chanNil"
    by (auto simp: step_def Let_def split: if_splits)
  from run_without_routing[OF assms(2) nil1 assms(3)]
  have nil2: "sendingCh d2 = chanNil" and noacc: "\<forall>c\<in>set cs. \<not> accepts c"
    by simp_all
  have blocked: "step (CaseSend cmd' w) d2 = None"
    using nil2 by (simp add: step_def)
  have only: "\<forall>c d3. step c d2 = Some d3 \<and> sendingCh d3 = chanSend \<longrightarrow>
           routes c \<and> (\<exists>rep. c = CaseReply rep (Some Sent) \<and> handed d3 = handed d2 @ [rep])"
  proof (intro allI impI)
    fix c d3
    assume a: "step c d2 = Some d3 \<and> sendingCh d3 = chanSend"
    then obtain rep where "c = CaseReply rep (Some Sent)" "Command rep \<noteq> ''SIGHUP''"
        "handed d3 = handed d2 @ [rep]"
      using step_enables_only_by_routing[OF _ nil2] by blast
    then show "routes c \<and> (\<exists>rep. c = CaseReply rep (Some Sent) \<and> handed d3 = handed d2 @ [rep])"
      by simp
  qed
  from nil2 noacc blocked only show ?thesis by blast
qed

theorem one_in_flight_witness:
  "step (CaseSend Version None) newDispatcher
     = Some (newDispatcher\<lparr>written := [''VERSION'' @ [CHR 0x0A]], sendingCh := chanNil\<rparr>)
   \<and> run [CaseReply \<lparr>Command = ''SIGHUP'', Success = True, Data = []\<rparr> (Some Sent),
           CaseReply \<lparr>Command = ''VERSION'', Success = True, Data = []\<rparr> (Some CtxDone)]
        (newDispatcher\<lparr>written := [''VERSION'' @ [CHR 0x0A]], sendingCh := chanNil\<rparr>)
     = Some (newDispatcher\<lparr>written := [''VERSION'' @ [CHR 0x0A]], sendingCh := chanNil,
                logs := [''lircd has been reloaded''], cancels := [None], phase := Returned\<rparr>)
   \<and> sendingCh (newDispatcher\<lparr>written := [''VERSION'' @ [CHR 0x0A]], sendingCh := chanNil,
                logs := [''lircd has been reloaded''], cancels := [None], phase := Returned\<rparr>)
     = chanNil
   \<and> step (CaseSend (List ''DenonTuner'') None)
        (newDispatcher\<lparr>written := [''VERSION'' @ [CHR 0x0A]], sendingCh := chanNil,
                logs := [''lircd has been reloaded''], cancels := [None], phase := Returned\<rparr>)
     = None"
proof -
  let ?d1 = "newDispatcher\<lparr>written := [''VERSION'' @ [CHR 0x0A]], sendingCh := chanNil\<rparr>"
  let ?cs = "[CaseReply \<lparr>Command = ''SIGHUP'', Success = True, Data = []\<rparr> (Some Sent),
              CaseReply \<lparr>Command = ''VERSION'', Success = True, Data = []\<rparr> (Some CtxDone)]"
  let ?d2 = "newDispatcher\<lparr>written := [''VERSION'' @ [CHR 0x0A]], sendingCh := chanNil,
                logs := [''lircd has been reloaded''], cancels := [None], phase := Returned\<rparr>"
  have h1: "step (CaseSend Version None) newDispatcher = Some ?d1"
    by (simp add: step_def newDispatcher_def)
  have h2: "run ?cs ?d1 = Some ?d2"
    by (simp add: step_def newDispatcher_def)
  have h3: "\<forall>c\<in>set ?cs. \<not> routes c"
    by simp
  from one_in_flight[OF h1 h2 h3, of "List ''DenonTuner''" None] h1 h2 show ?thesis
    by blast
qed

text \<open>
  C6. A reply whose command is the reload notice SIGHUP is logged and nothing else:
  \<open>sendingCh\<close> stays as it was, nil or not, and no reply is handed to \<open>r.reply\<close>,
  whatever the inner select would have done.
\<close>

theorem reload_notice_keeps_slot:
  "step (CaseReply (rep\<lparr>Command := ''SIGHUP''\<rparr>) inner) (d\<lparr>phase := Looping\<rparr>)
     = Some (d\<lparr>phase := Looping, logs := logs d @ [''lircd has been reloaded'']\<rparr>)"
  by (simp add: step_def)

text \<open>
  C7. Event round trip, as the code has it. A line of four fields separated by single
  spaces, read in \<open>stateReceive\<close>, whose first field padded with zeros to 16 digits
  decodes to the 8 bytes \<open>c\<close>, whose second field is a non-empty string of decimal
  digits with a value below \<open>2 ^ 64\<close> (it has to fit the \<open>uint\<close> that
  \<open>ParseUint\<close> parses into), and whose last two fields hold no space: when the
  select sends the event, it is the event with that button name, that remote name,
  the decimal value as repeat count, and the first two bytes of \<open>c\<close> as a
  little-endian code.
\<close>

theorem event_round_trip:
  assumes "state r = stateReceive"
    and "DecodeString (replicate (16 - length hex) CHR ''0'' @ hex) = Inr c"
    and "length c = 8"
    and "repeat \<noteq> []" and "\<forall>ch\<in>set repeat. isDigit ch" and "decimalValue repeat < 2 ^ 64"
    and "CHR '' '' \<notin> set button" and "CHR '' '' \<notin> set remote"
    and "selectSend ctx rt = Some Sent"
  shows "\<exists>ev. read ctx rt (hex @ '' '' @ repeat @ '' '' @ button @ '' '' @ remote) r
             = Returns (r, [SendEvent ev])
     \<and> ButtonName ev = button \<and> RemoteControlName ev = remote
     \<and> unat (RepeatCount ev) = decimalValue repeat
     \<and> unat (Code ev) = unat (c ! 0) + 256 * unat (c ! 1)"
proof -
  let ?line = "hex @ '' '' @ repeat @ '' '' @ button @ '' '' @ remote"
  let ?h = "replicate (16 - length hex) CHR ''0'' @ hex"
  have w: "Split ?line CHR '' '' = [hex, repeat, button, remote]"
    by (rule Split_event_line[OF assms(2,5,7,8)])
  have nb: "?line \<noteq> ''BEGIN''"
    by (rule line_not_BEGIN)
  have pad: "(if length hex < 16 then replicate (16 - length hex) CHR ''0'' @ hex else hex) = ?h"
    by simp
  from Uint16_of_8[OF assms(3)] obtain code where
    code: "Uint16 c = Returns code" "unat code = unat (c ! 0) + 256 * unat (c ! 1)"
    by blast
  have pu: "ParseUint repeat = Inr (int (decimalValue repeat))"
    by (rule ParseUint_digits[OF assms(4,5,6)])
  let ?ev = "\<lparr>Code = code, RepeatCount = word_of_int (int (decimalValue repeat)),
              ButtonName = button, RemoteControlName = remote\<rparr>"
  have ix: "index [hex, repeat, button, remote] 0 = Returns hex"
      "index [hex, repeat, button, remote] 1 = Returns repeat"
      "index [hex, repeat, button, remote] 2 = Returns button"
      "index [hex, repeat, button, remote] 3 = Returns remote"
    by (simp_all add: index_def)
  have ev: "readEvent ctx rt ?line r = Returns (r, [SendEvent ?ev])"
    unfolding readEvent_def w Let_def ix andThen.simps pad
    by (simp add: assms(2,3,9) pu code(1))
  have rd: "read ctx rt ?line r = Returns (r, [SendEvent ?ev])"
    using assms(1) nb ev by (simp add: read_def)
  have rc: "unat (word_of_int (int (decimalValue repeat)) :: 64 word) = decimalValue repeat"
    using assms(6) by (simp add: unsigned_of_nat take_bit_nat_eq_self)
  show ?thesis
    using rd rc code(2) by (intro exI[of _ ?ev]) simp
qed

text \<open>
  The line of the spec's scenario C: button KEY_POWER, remote Television, repeat
  count 0; the first two of the bytes 00 00 00 00 00 00 00 2a give the code 0.
\<close>

theorem event_round_trip_witness:
  "\<exists>ev. read background \<lparr>parked = True, pick = Sent, later = None\<rparr>
            ''000000000000002a 0 KEY_POWER Television'' newLircReader
          = Returns (newLircReader, [SendEvent ev])
     \<and> ButtonName ev = ''KEY_POWER'' \<and> RemoteControlName ev = ''Television''
     \<and> unat (RepeatCount ev) = 0 \<and> unat (Code ev) = 0"
proof -
  have h1: "state newLircReader = stateReceive"
    by (simp add: newLircReader_def)
  have h2: "DecodeString (replicate (16 - length ''000000000000002a'') CHR ''0'' @ ''000000000000002a'')
              = Inr [0, 0, 0, 0, 0, 0, 0, 42]"
    by (simp add: fromHexChar_def)
  have h3: "length [0, 0, 0, 0, 0, 0, 0, 42 :: 8 word] = 8"
    by simp
  have h4: "''0'' \<noteq> []"
    by simp
  have h5: "\<forall>ch\<in>set ''0''. isDigit ch"
    by (simp add: isDigit_def)
  have dv: "decimalValue ''0'' = 0"
    by (simp add: decimalValue_def digitValue_def)
  have h6: "decimalValue ''0'' < 2 ^ 64"
    by (simp add: dv)
  have h7: "CHR '' '' \<notin> set ''KEY_POWER''"
    by simp
  have h8: "CHR '' '' \<notin> set ''Television''"
    by simp
  have h9: "selectSend background \<lparr>parked = True, pick = Sent, later = None\<rparr> = Some Sent"
    by (simp add: selectSend_def background_def Done_def)
  from event_round_trip[OF h1 h2 h3 h4 h5 h6 h7 h8 h9] show ?thesis
    by (simp add: dv)
qed

text \<open>
  C7 as the claim has it, for every non-negative decimal repeat count, fails: the
  count 18446744073709551616 is a string of digits, and the line is logged as an
  error and gives no event.
\<close>

theorem event_repeat_out_of_range:
  "DecodeString ''000000000000002a'' = Inr [0, 0, 0, 0, 0, 0, 0, 42]
   \<and> list_all isDigit ''18446744073709551616''
   \<and> read background \<lparr>parked = True, pick = Sent, later = None\<rparr>
        ''000000000000002a 18446744073709551616 KEY_POWER Television'' newLircReader
      = Returns (newLircReader,
          [LogError ''lirc repeat count not parseable as decimal (invalid repeat count)''
             [StrAttr ''repeat'' ''18446744073709551616'']])"
  by (simp add: read_def readEvent_def index_def fromHexChar_def ParseUint_def maxUint64_def
        Let_def newLircReader_def stateError_def isDigit_def)

text \<open>
  C8, as the code has it. Once the derived context is done, \<open>Start\<close> closes the
  stream first and waits for the two loops after that; it returns only when both have
  ended. It returns the error of a failed close, wrapped, and otherwise the cause of
  the first cancellation, which is never nil: the parent's cause when the parent was
  cancelled, the error a loop gave to \<open>cancel\<close>, and \<open>Canceled\<close> for
  \<open>cancel(nil)\<close>. While the context is not done \<open>Start\<close> does not return.
\<close>

theorem Start_returns_cause:
  "Start None (applyCancels (c # cs) background) None True
     = ([Dial, LaunchLoops, AwaitDone, CloseConn, WaitLoops], Returns (Some (causeOf c)))
   \<and> Start None (applyCancels (c # cs) background) (Some e) True
     = ([Dial, LaunchLoops, AwaitDone, CloseConn, WaitLoops], Returns (Some (ErrorClosing e)))
   \<and> Start None (applyCancels (c # cs) background) closeErr False
     = ([Dial, LaunchLoops, AwaitDone, CloseConn, WaitLoops], BlocksForever)
   \<and> Start None background closeErr exited = ([Dial, LaunchLoops, AwaitDone], BlocksForever)"
proof -
  have d: "Done (applyCancels (c # cs) background)"
    and k: "Cause (applyCancels (c # cs) background) = Some (causeOf c)"
    using applyCancel_background[of c] by (simp_all add: applyCancels_first)
  have nd: "\<not> Done background"
    by (simp add: Done_def background_def)
  show ?thesis
    by (simp add: Start_def d k nd)
qed

text \<open>
  C8 as the claim has it fails on a clean cancellation from outside: the parent
  context is cancelled, no I/O error is recorded, both loops leave with their
  \<open>cancel(nil)\<close>, the close succeeds; \<open>Start\<close> closes before it waits for the loops
  and returns \<open>Canceled\<close>, not nil.
\<close>

theorem Start_clean_cancel_not_nil:
  "Start None
     (applyCancels [ParentDone Canceled Canceled, CancelCall None, CancelCall None] background)
     None True
   = ([Dial, LaunchLoops, AwaitDone, CloseConn, WaitLoops], Returns (Some Canceled))"
  by (simp add: Start_def applyCancels_def cancel_def parentDone_def background_def Done_def
        Cause_def)

text \<open>
  C9. The line BEGIN opens a transaction in \<open>stateReceive\<close> only. In \<open>stateReply\<close>
  it becomes the command name, in \<open>stateData\<close> it is appended to the data, in
  \<open>stateStatus\<close>, \<open>stateDataStart\<close> and \<open>stateDataEnd\<close> (and in
  \<open>stateDataLength\<close>, where it is no number) it is a protocol error that leads back
  to \<open>stateReceive\<close>; in the state without an arm nothing happens.
\<close>

theorem begin_outside_idle:
  "read ctx rt ''BEGIN'' (r\<lparr>state := stateReceive\<rparr>)
      = Returns (r\<lparr>state := stateReply, reply := zeroReply, dataCount := 0, dataLength := 0\<rparr>, [])
  \<and> read ctx rt ''BEGIN'' (r\<lparr>state := stateReply\<rparr>)
      = Returns (r\<lparr>reply := \<lparr>Command = ''BEGIN'', Success = True, Data = []\<rparr>,
                   state := stateStatus\<rparr>, [])
  \<and> read ctx rt ''BEGIN'' (r\<lparr>state := stateData\<rparr>)
      = Returns (r\<lparr>reply := (reply r)\<lparr>Data := Data (reply r) @ [''BEGIN'']\<rparr>,
                   dataCount := dataCount r + 1,
                   state := (if dataLength r < dataCount r + 1 then stateDataEnd else stateData)\<rparr>,
                 [])
  \<and> read ctx rt ''BEGIN'' (r\<lparr>state := stateStatus\<rparr>)
      = Returns (r\<lparr>state := stateReceive\<rparr>,
                 [LogError ''lirc reply message received has invalid status''
                    [StrAttr ''line'' ''BEGIN'']])
  \<and> read ctx rt ''BEGIN'' (r\<lparr>state := stateDataStart\<rparr>)
      = Returns (r\<lparr>state := stateReceive\<rparr>,
                 [LogError ''lirc reply message received has invalid data start''
                    [StrAttr ''line'' ''BEGIN'']])
  \<and> read ctx rt ''BEGIN'' (r\<lparr>state := stateDataEnd\<rparr>)
      = Returns (r\<lparr>state := stateReceive\<rparr>,
                 [LogError ''lirc reply message received has invalid data end, discarding reply''
                    [StrAttr ''line'' ''BEGIN'']])
  \<and> read ctx rt ''BEGIN'' (r\<lparr>state := stateDataLength\<rparr>)
      = Returns (r\<lparr>state := stateReceive, dataLength := 0\<rparr>,
                 [LogError ''lirc reply message received has invalid data length''
                    [StrAttr ''line'' ''BEGIN'']])
  \<and> read ctx rt ''BEGIN'' (r\<lparr>state := stateMessage\<rparr>) = Returns (r\<lparr>state := stateMessage\<rparr>, [])"
  by (simp add: read_def stateError_def Atoi_def ParseUint_def Let_def)


end
